theory Spec2Isabelle
  imports Main "HOL-Library.Word"
begin

unbundle bit_operations_syntax

section \<open>Machine integers of \<open>DRV8711.h\<close>\<close>

text \<open>
  The header uses \<open>uint8_t\<close> and \<open>uint16_t\<close>.  Every operator of C++ first promotes
  such an operand to \<open>int\<close>, computes there, and the assignment (or the parameter passing)
  truncates the result again.  \<open>int\<close> is taken as the 32-bit integer of the ARM target
  of this port.  The header only uses \<open>&\<close>, \<open>|\<close>, \<open>^\<close>, \<open>~\<close> and \<open><<\<close>, which
  commute with the truncation to 16 bits.
\<close>

type_synonym uint8_t = "8 word"
type_synonym uint16_t = "16 word"
type_synonym c_int = "32 word"

abbreviation int_of_u8 :: "uint8_t \<Rightarrow> c_int" where
  "int_of_u8 \<equiv> ucast"

abbreviation int_of_u16 :: "uint16_t \<Rightarrow> c_int" where
  "int_of_u16 \<equiv> ucast"

abbreviation u16_of_int :: "c_int \<Rightarrow> uint16_t" where
  "u16_of_int \<equiv> ucast"

section \<open>The host platform: pins and the SPI bus\<close>

text \<open>
  The calls into \<open>Arduino.h\<close> and \<open>SPI.h\<close> are the only effects of the header.  They
  are recorded, in the order they happen, in a trace of events.
\<close>

datatype pin_level = LOW | HIGH

datatype pin_mode = OUTPUT

datatype bit_order = MSBFIRST

datatype spi_mode = SPI_MODE0

datatype SPISettings = SPISettings nat bit_order spi_mode

datatype event =
    DigitalWrite uint8_t pin_level
  | PinMode uint8_t pin_mode
  | BeginTransaction SPISettings
  | Transfer16 uint16_t
  | EndTransaction

type_synonym bus = "event list"

section \<open>Class \<open>DRV8711SPI\<close>\<close>

record DRV8711SPI =
  ssPin :: uint8_t

definition settings :: SPISettings where
  "settings = SPISettings 500000 MSBFIRST SPI_MODE0"

definition init_spi :: "uint8_t \<Rightarrow> DRV8711SPI \<Rightarrow> bus \<Rightarrow> DRV8711SPI \<times> bus" where
  "init_spi slaveSelectPin spi b =
     (let spi' = spi\<lparr>ssPin := slaveSelectPin\<rparr>
      in (spi', b @ [DigitalWrite (ssPin spi') LOW, PinMode (ssPin spi') OUTPUT]))"

text \<open>\<open>transfer\<close> hands the word to \<open>SPI.transfer16\<close>; \<open>writeReg\<close> drops the reply.\<close>

definition transfer :: "uint16_t \<Rightarrow> bus \<Rightarrow> bus" where
  "transfer v b = b @ [Transfer16 v]"

definition selectChip :: "DRV8711SPI \<Rightarrow> bus \<Rightarrow> bus" where
  "selectChip spi b = b @ [DigitalWrite (ssPin spi) HIGH, BeginTransaction settings]"

definition deselectChip :: "DRV8711SPI \<Rightarrow> bus \<Rightarrow> bus" where
  "deselectChip spi b = b @ [EndTransaction, DigitalWrite (ssPin spi) LOW]"

text \<open>
  \<open>transfer((address << 12) | value)\<close>: both operands are promoted to \<open>int\<close>, the
  result is truncated to the \<open>uint16_t\<close> parameter of \<open>transfer\<close>.
\<close>

definition writeReg :: "DRV8711SPI \<Rightarrow> uint8_t \<Rightarrow> uint16_t \<Rightarrow> bus \<Rightarrow> bus" where
  "writeReg spi address v b =
     deselectChip spi
       (transfer (u16_of_int (push_bit 12 (int_of_u8 address) OR int_of_u16 v))
          (selectChip spi b))"

section \<open>Class \<open>DRV8711\<close>\<close>

record DRV8711 =
  ctrl :: uint16_t
  torque :: uint16_t
  off :: uint16_t
  blank :: uint16_t
  decay :: uint16_t
  status :: uint16_t
  driver :: DRV8711SPI

subsection \<open>The enumerations\<close>

definition CTRL :: uint8_t where "CTRL = 0x00"
definition TORQUE :: uint8_t where "TORQUE = 0x01"
definition OFF :: uint8_t where "OFF = 0x02"
definition BLANK :: uint8_t where "BLANK = 0x03"
definition DECAY :: uint8_t where "DECAY = 0x04"
definition STATUS :: uint8_t where "STATUS = 0x07"

definition Gain5 :: int where "Gain5 = 5"
definition Gain10 :: int where "Gain10 = 10"
definition Gain20 :: int where "Gain20 = 20"
definition Gain40 :: int where "Gain40 = 40"

definition DeadTime400ns :: int where "DeadTime400ns = 400"
definition DeadTime450ns :: int where "DeadTime450ns = 450"
definition DeadTime650ns :: int where "DeadTime650ns = 650"
definition DeadTime850ns :: int where "DeadTime850ns = 850"

definition MicroStep256 :: int where "MicroStep256 = 256"
definition MicroStep128 :: int where "MicroStep128 = 128"
definition MicroStep64 :: int where "MicroStep64 = 64"
definition MicroStep32 :: int where "MicroStep32 = 32"
definition MicroStep16 :: int where "MicroStep16 = 16"
definition MicroStep8 :: int where "MicroStep8 = 8"
definition MicroStep4 :: int where "MicroStep4 = 4"
definition MicroStep2 :: int where "MicroStep2 = 2"
definition MicroStep1 :: int where "MicroStep1 = 1"

subsection \<open>Construction\<close>

text \<open>
  The constructor assigns the six shadow registers and calls nothing else.  The member
  \<open>driver\<close> is default-constructed: its \<open>ssPin\<close> is whatever the object's memory holds,
  here the argument \<open>spi0\<close>.  The bus is threaded through as for every other operation.
\<close>

definition DRV8711_new :: "DRV8711SPI \<Rightarrow> bus \<Rightarrow> DRV8711 \<times> bus" where
  "DRV8711_new spi0 b =
     (\<lparr>ctrl = 0xC10, torque = 0x1FF, off = 0x30, blank = 0x80, decay = 0x110,
       status = 0x0, driver = spi0\<rparr>, b)"

definition init :: "uint8_t \<Rightarrow> DRV8711 \<Rightarrow> bus \<Rightarrow> DRV8711 \<times> bus" where
  "init slaveSelectPin d b =
     (case init_spi slaveSelectPin (driver d) b of (spi', b') \<Rightarrow> (d\<lparr>driver := spi'\<rparr>, b'))"

subsection \<open>Flushing a shadow register\<close>

definition writeCTRL :: "DRV8711 \<Rightarrow> bus \<Rightarrow> bus" where
  "writeCTRL d b = writeReg (driver d) CTRL (ctrl d) b"

definition writeTORQUE :: "DRV8711 \<Rightarrow> bus \<Rightarrow> bus" where
  "writeTORQUE d b = writeReg (driver d) TORQUE (torque d) b"

definition writeOFF :: "DRV8711 \<Rightarrow> bus \<Rightarrow> bus" where
  "writeOFF d b = writeReg (driver d) OFF (off d) b"

subsection \<open>The setters\<close>

text \<open>Each setter assigns one shadow register and flushes it.\<close>

definition enableDriver :: "DRV8711 \<Rightarrow> bus \<Rightarrow> DRV8711 \<times> bus" where
  "enableDriver d b =
     (let d' = d\<lparr>ctrl := u16_of_int (int_of_u16 (ctrl d) OR 1)\<rparr>
      in (d', writeCTRL d' b))"

definition disableDriver :: "DRV8711 \<Rightarrow> bus \<Rightarrow> DRV8711 \<times> bus" where
  "disableDriver d b =
     (let d' = d\<lparr>ctrl := u16_of_int (int_of_u16 (ctrl d) AND 0)\<rparr>
      in (d', writeCTRL d' b))"

definition flipDirection :: "DRV8711 \<Rightarrow> bus \<Rightarrow> DRV8711 \<times> bus" where
  "flipDirection d b =
     (let d' = d\<lparr>ctrl := u16_of_int (int_of_u16 (ctrl d) XOR push_bit 1 1)\<rparr>
      in (d', writeCTRL d' b))"

definition step :: "DRV8711 \<Rightarrow> bus \<Rightarrow> DRV8711 \<times> bus" where
  "step d b =
     (let d' = d\<lparr>ctrl := u16_of_int (int_of_u16 (ctrl d) OR push_bit 2 1)\<rparr>
      in (d', writeCTRL d' b))"

text \<open>
  The \<open>switch\<close> of \<open>setStepMode\<close>: the condition is promoted to \<open>int\<close> and compared
  with the case labels in order; \<open>sm\<close> keeps its initial value \<open>0b0010\<close> when none matches.
\<close>

definition stepModeCode :: "uint16_t \<Rightarrow> uint16_t" where
  "stepModeCode mode =
     (let m = uint mode in
      if m = MicroStep1 then 0
      else if m = MicroStep2 then 1
      else if m = MicroStep4 then 2
      else if m = MicroStep8 then 3
      else if m = MicroStep16 then 4
      else if m = MicroStep32 then 5
      else if m = MicroStep64 then 6
      else if m = MicroStep128 then 7
      else if m = MicroStep256 then 8
      else 2)"

text \<open>\<open>ctrl = (ctrl & 0b111110000111) | (sm << 3)\<close>; the mask is \<open>0xF87\<close>.\<close>

definition setStepMode :: "uint16_t \<Rightarrow> DRV8711 \<Rightarrow> bus \<Rightarrow> DRV8711 \<times> bus" where
  "setStepMode mode d b =
     (let sm = stepModeCode mode;
          d' = d\<lparr>ctrl := u16_of_int ((int_of_u16 (ctrl d) AND 0xF87) OR push_bit 3 (int_of_u16 sm))\<rparr>
      in (d', writeCTRL d' b))"

definition setExternalStallDetection :: "DRV8711 \<Rightarrow> bus \<Rightarrow> DRV8711 \<times> bus" where
  "setExternalStallDetection d b =
     (let d' = d\<lparr>ctrl := u16_of_int (int_of_u16 (ctrl d) OR push_bit 7 1)\<rparr>
      in (d', writeCTRL d' b))"

definition setInternalStallDetection :: "DRV8711 \<Rightarrow> bus \<Rightarrow> DRV8711 \<times> bus" where
  "setInternalStallDetection d b =
     (let d' = d\<lparr>ctrl := u16_of_int (int_of_u16 (ctrl d) AND NOT (push_bit 7 1))\<rparr>
      in (d', writeCTRL d' b))"

text \<open>The \<open>switch\<close> of \<open>setGain\<close>; \<open>ag\<close> starts as \<open>0b10\<close>.\<close>

definition gainCode :: "uint8_t \<Rightarrow> uint16_t" where
  "gainCode gain =
     (let g = uint gain in
      if g = Gain5 then 0
      else if g = Gain10 then 1
      else if g = Gain20 then 2
      else if g = Gain40 then 3
      else 2)"

text \<open>\<open>ctrl = (ctrl & 0b110011111111) | (ag << 8)\<close>; the mask is \<open>0xCFF\<close>.\<close>

definition setGain :: "uint8_t \<Rightarrow> DRV8711 \<Rightarrow> bus \<Rightarrow> DRV8711 \<times> bus" where
  "setGain gain d b =
     (let ag = gainCode gain;
          d' = d\<lparr>ctrl := u16_of_int ((int_of_u16 (ctrl d) AND 0xCFF) OR push_bit 8 (int_of_u16 ag))\<rparr>
      in (d', writeCTRL d' b))"

text \<open>
  The \<open>switch\<close> of \<open>setDeadTime\<close>: the parameter is a \<open>uint8_t\<close>, promoted to \<open>int\<close>
  for the comparison with the labels 400, 450, 650 and 850; \<open>dt\<close> starts as \<open>0b11\<close>.
\<close>

definition deadTimeCode :: "uint8_t \<Rightarrow> uint16_t" where
  "deadTimeCode dTime =
     (let t = uint dTime in
      if t = DeadTime400ns then 0
      else if t = DeadTime450ns then 1
      else if t = DeadTime650ns then 2
      else if t = DeadTime850ns then 3
      else 3)"

text \<open>\<open>ctrl = (ctrl & 0b110011111111) | (dt << 10)\<close>; the mask is again \<open>0xCFF\<close>.\<close>

definition setDeadTime :: "uint8_t \<Rightarrow> DRV8711 \<Rightarrow> bus \<Rightarrow> DRV8711 \<times> bus" where
  "setDeadTime dTime d b =
     (let dt = deadTimeCode dTime;
          d' = d\<lparr>ctrl := u16_of_int ((int_of_u16 (ctrl d) AND 0xCFF) OR push_bit 10 (int_of_u16 dt))\<rparr>
      in (d', writeCTRL d' b))"

text \<open>\<open>torque = (torque & 0b11100000000) | torqueValue\<close>; the mask is \<open>0x700\<close>.\<close>

definition setTorque :: "uint8_t \<Rightarrow> DRV8711 \<Rightarrow> bus \<Rightarrow> DRV8711 \<times> bus" where
  "setTorque torqueValue d b =
     (let d' = d\<lparr>torque := u16_of_int ((int_of_u16 (torque d) AND 0x700) OR int_of_u8 torqueValue)\<rparr>
      in (d', writeTORQUE d' b))"

text \<open>\<open>off = (off & 0b100000000) | offTime\<close>; the mask is \<open>0x100\<close>.\<close>

definition setOffTime :: "uint8_t \<Rightarrow> DRV8711 \<Rightarrow> bus \<Rightarrow> DRV8711 \<times> bus" where
  "setOffTime offTime d b =
     (let d' = d\<lparr>off := u16_of_int ((int_of_u16 (off d) AND 0x100) OR int_of_u8 offTime)\<rparr>
      in (d', writeOFF d' b))"

text \<open>\<open>off = off ^ (1 << 8)\<close>; the parameter \<open>pwmMode\<close> is not used in the body.\<close>

definition setPWMMode :: "uint16_t \<Rightarrow> DRV8711 \<Rightarrow> bus \<Rightarrow> DRV8711 \<times> bus" where
  "setPWMMode pwmMode d b =
     (let d' = d\<lparr>off := u16_of_int (int_of_u16 (off d) XOR push_bit 8 1)\<rparr>
      in (d', writeOFF d' b))"

text \<open>
  A caller's integer argument is converted to the parameter type: \<open>setDeadTime(400)\<close>
  passes \<open>400 mod 256\<close>.
\<close>

definition arg_u8 :: "int \<Rightarrow> uint8_t" where
  "arg_u8 i = word_of_int i"

section \<open>Programs over the public interface\<close>

text \<open>
  The shadow registers are \<open>protected\<close>: a client changes them only through the public
  member functions.  A client program is a sequence of such calls, run from left to right
  on the device and the bus.
\<close>

datatype call =
    Init uint8_t
  | EnableDriver
  | DisableDriver
  | FlipDirection
  | Step
  | SetStepMode uint16_t
  | SetExternalStallDetection
  | SetInternalStallDetection
  | SetGain uint8_t
  | SetDeadTime uint8_t
  | SetTorque uint8_t
  | SetOffTime uint8_t
  | SetPWMMode uint16_t

fun perform :: "call \<Rightarrow> DRV8711 \<Rightarrow> bus \<Rightarrow> DRV8711 \<times> bus" where
  "perform (Init p) d b = init p d b"
| "perform EnableDriver d b = enableDriver d b"
| "perform DisableDriver d b = disableDriver d b"
| "perform FlipDirection d b = flipDirection d b"
| "perform Step d b = step d b"
| "perform (SetStepMode m) d b = setStepMode m d b"
| "perform SetExternalStallDetection d b = setExternalStallDetection d b"
| "perform SetInternalStallDetection d b = setInternalStallDetection d b"
| "perform (SetGain g) d b = setGain g d b"
| "perform (SetDeadTime t) d b = setDeadTime t d b"
| "perform (SetTorque v) d b = setTorque v d b"
| "perform (SetOffTime v) d b = setOffTime v d b"
| "perform (SetPWMMode m) d b = setPWMMode m d b"

fun perform_all :: "call list \<Rightarrow> DRV8711 \<Rightarrow> bus \<Rightarrow> DRV8711 \<times> bus" where
  "perform_all [] d b = (d, b)"
| "perform_all (c # cs) d b = (case perform c d b of (d', b') \<Rightarrow> perform_all cs d' b')"

section \<open>Auxiliary facts\<close>

lemmas enum_defs =
  CTRL_def TORQUE_def OFF_def BLANK_def DECAY_def STATUS_def
  Gain5_def Gain10_def Gain20_def Gain40_def
  DeadTime400ns_def DeadTime450ns_def DeadTime650ns_def DeadTime850ns_def
  MicroStep1_def MicroStep2_def MicroStep4_def MicroStep8_def MicroStep16_def
  MicroStep32_def MicroStep64_def MicroStep128_def MicroStep256_def

subsection \<open>Sixteen bit positions\<close>

lemma below_16:
  "n < 16 \<Longrightarrow> n \<in> {0, 1, 2, 3, 4, 5, 6, 7, 8, 9, 10, 11, 12, 13, 14, 15 :: nat}"
  by (simp, arith)

lemma below_12:
  "n < 12 \<Longrightarrow> n \<in> {0, 1, 2, 3, 4, 5, 6, 7, 8, 9, 10, 11 :: nat}"
  by (simp, arith)

lemma word16_eqI:
  fixes x y :: uint16_t
  assumes "\<And>n. n \<in> {0, 1, 2, 3, 4, 5, 6, 7, 8, 9, 10, 11, 12, 13, 14, 15 :: nat}
             \<Longrightarrow> bit x n = bit y n"
  shows "x = y"
proof (rule bit_word_eqI)
  fix n
  assume "n < LENGTH(16)"
  then have "n < 16" by simp
  then show "bit x n = bit y n"
    by (intro assms below_16)
qed

lemma high_bits_u16: "\<not> bit (x :: uint16_t) n" if "16 \<le> n"
  using that by (auto dest: bit_imp_le_length)

lemma high_bits_u8: "\<not> bit (x :: uint8_t) n" if "8 \<le> n"
  using that by (auto dest: bit_imp_le_length)

lemma twelve_bit_iff:
  "(x :: uint16_t) \<le> 0xFFF \<longleftrightarrow> (\<forall>n\<ge>12. \<not> bit x n)"
proof -
  have "x \<le> 0xFFF \<longleftrightarrow> uint x < 2 ^ 12"
    by (simp add: word_le_def, arith)
  also have "\<dots> \<longleftrightarrow> take_bit 12 x = x"
    by (simp add: take_bit_eq_mask mask_eq_iff)
  also have "\<dots> \<longleftrightarrow> (\<forall>n\<ge>12. \<not> bit x n)"
  proof
    assume low: "take_bit 12 x = x"
    show "\<forall>n\<ge>12. \<not> bit x n"
    proof (intro allI impI)
      fix n :: nat
      assume "12 \<le> n"
      then have "\<not> bit (take_bit 12 x) n"
        by (simp add: bit_simps)
      with low show "\<not> bit x n"
        by simp
    qed
  next
    assume high: "\<forall>n\<ge>12. \<not> bit x n"
    show "take_bit 12 x = x"
    proof (rule bit_eqI)
      fix n
      from high have "bit x n \<Longrightarrow> n < 12"
        by (meson not_le)
      then show "bit (take_bit 12 x) n = bit x n"
        by (auto simp add: bit_simps)
    qed
  qed
  finally show ?thesis .
qed

subsection \<open>The assignments without the promotion to \<open>int\<close>\<close>

text \<open>
  Truncating to 16 bits commutes with the bitwise operators and with the left shift, so
  each assignment of the header is the same operation on \<open>uint16_t\<close>.
\<close>

lemma wire_word_eq:
  "u16_of_int (push_bit 12 (int_of_u8 a) OR int_of_u16 v) = push_bit 12 (ucast a) OR v"
  by (rule bit_word_eqI) (auto simp add: bit_simps)

lemma writeReg_trace:
  "writeReg spi a v b =
     b @ [DigitalWrite (ssPin spi) HIGH, BeginTransaction settings,
          Transfer16 (push_bit 12 (ucast a) OR v),
          EndTransaction, DigitalWrite (ssPin spi) LOW]"
  by (simp add: writeReg_def selectChip_def transfer_def deselectChip_def wire_word_eq)

lemma ctrl_enableDriver: "ctrl (fst (enableDriver d b)) = ctrl d OR 1"
  unfolding enableDriver_def Let_def fst_conv
  by (simp, rule bit_word_eqI) (auto simp add: bit_simps)

lemma ctrl_disableDriver: "ctrl (fst (disableDriver d b)) = 0"
  by (simp add: disableDriver_def Let_def)

lemma ctrl_flipDirection: "ctrl (fst (flipDirection d b)) = ctrl d XOR 2"
  unfolding flipDirection_def Let_def fst_conv
  by (simp, rule bit_word_eqI) (auto simp add: bit_simps)

lemma ctrl_step: "ctrl (fst (step d b)) = ctrl d OR 4"
  unfolding step_def Let_def fst_conv
  by (simp, rule bit_word_eqI) (auto simp add: bit_simps)

lemma ctrl_setStepMode:
  "ctrl (fst (setStepMode m d b)) = (ctrl d AND 0xF87) OR push_bit 3 (stepModeCode m)"
  unfolding setStepMode_def Let_def fst_conv
  by (simp, rule bit_word_eqI) (auto simp add: bit_simps)

lemma ctrl_setExternalStallDetection:
  "ctrl (fst (setExternalStallDetection d b)) = ctrl d OR 0x80"
  unfolding setExternalStallDetection_def Let_def fst_conv
  by (simp, rule bit_word_eqI) (auto simp add: bit_simps)

lemma ctrl_setInternalStallDetection:
  "ctrl (fst (setInternalStallDetection d b)) = ctrl d AND 0xFF7F"
  unfolding setInternalStallDetection_def Let_def fst_conv
  by (simp, rule word16_eqI) (auto simp add: bit_simps)

lemma ctrl_setGain:
  "ctrl (fst (setGain g d b)) = (ctrl d AND 0xCFF) OR push_bit 8 (gainCode g)"
  unfolding setGain_def Let_def fst_conv
  by (simp, rule bit_word_eqI) (auto simp add: bit_simps)

lemma ctrl_setDeadTime:
  "ctrl (fst (setDeadTime t d b)) = (ctrl d AND 0xCFF) OR push_bit 10 (deadTimeCode t)"
  unfolding setDeadTime_def Let_def fst_conv
  by (simp, rule bit_word_eqI) (auto simp add: bit_simps)

lemma torque_setTorque:
  "torque (fst (setTorque v d b)) = (torque d AND 0x700) OR ucast v"
  unfolding setTorque_def Let_def fst_conv
  by (simp, rule bit_word_eqI) (auto simp add: bit_simps)

lemma off_setOffTime:
  "off (fst (setOffTime v d b)) = (off d AND 0x100) OR ucast v"
  unfolding setOffTime_def Let_def fst_conv
  by (simp, rule bit_word_eqI) (auto simp add: bit_simps)

lemma off_setPWMMode: "off (fst (setPWMMode m d b)) = off d XOR 0x100"
  unfolding setPWMMode_def Let_def fst_conv
  by (simp, rule bit_word_eqI) (auto simp add: bit_simps)

subsection \<open>The codes the three \<open>switch\<close> statements can produce\<close>

lemma stepModeCode_range: "stepModeCode m \<in> {0, 1, 2, 3, 4, 5, 6, 7, 8}"
  by (simp add: stepModeCode_def enum_defs Let_def)

lemma gainCode_range: "gainCode g \<in> {0, 1, 2, 3}"
  by (simp add: gainCode_def enum_defs Let_def)

lemma uint_u8_below: "uint (t :: uint8_t) < 256"
  using uint_bounded [of t] by simp

lemma deadTimeCode_const: "deadTimeCode t = 3"
  using uint_u8_below [of t] by (simp add: deadTimeCode_def enum_defs Let_def)

subsection \<open>The shadow of CTRL stays a 12-bit value\<close>

lemma twelve_bitI:
  fixes x :: uint16_t
  assumes "\<not> bit x 12" "\<not> bit x 13" "\<not> bit x 14" "\<not> bit x 15"
  shows "x \<le> 0xFFF"
  unfolding twelve_bit_iff
proof (intro allI impI)
  fix n :: nat
  assume "12 \<le> n"
  show "\<not> bit x n"
  proof (cases "n < 16")
    case True
    with \<open>12 \<le> n\<close> assms show ?thesis
      by (auto dest!: below_16)
  next
    case False
    then show ?thesis
      by (simp add: high_bits_u16)
  qed
qed

lemma twelve_bitD:
  fixes x :: uint16_t
  assumes "x \<le> 0xFFF"
  shows "\<not> bit x 12" "\<not> bit x 13" "\<not> bit x 14" "\<not> bit x 15"
  using assms by (simp_all add: twelve_bit_iff)

lemma perform_keeps_ctrl_12_bit:
  assumes "ctrl d \<le> 0xFFF"
  shows "ctrl (fst (perform c d b)) \<le> 0xFFF"
proof (cases c)
  case (Init p)
  with assms show ?thesis
    by (simp add: init_def init_spi_def Let_def)
next
  case EnableDriver
  with twelve_bitD [OF assms] show ?thesis
    by (intro twelve_bitI) (simp_all add: ctrl_enableDriver bit_simps)
next
  case DisableDriver
  then show ?thesis
    by (simp add: ctrl_disableDriver)
next
  case FlipDirection
  with twelve_bitD [OF assms] show ?thesis
    by (intro twelve_bitI) (simp_all add: ctrl_flipDirection bit_simps)
next
  case Step
  with twelve_bitD [OF assms] show ?thesis
    by (intro twelve_bitI) (simp_all add: ctrl_step bit_simps)
next
  case (SetStepMode m)
  with twelve_bitD [OF assms] stepModeCode_range [of m] show ?thesis
    by (intro twelve_bitI) (auto simp add: ctrl_setStepMode bit_simps)
next
  case SetExternalStallDetection
  with twelve_bitD [OF assms] show ?thesis
    by (intro twelve_bitI) (simp_all add: ctrl_setExternalStallDetection bit_simps)
next
  case SetInternalStallDetection
  with twelve_bitD [OF assms] show ?thesis
    by (intro twelve_bitI) (simp_all add: ctrl_setInternalStallDetection bit_simps)
next
  case (SetGain g)
  with twelve_bitD [OF assms] gainCode_range [of g] show ?thesis
    by (intro twelve_bitI) (auto simp add: ctrl_setGain bit_simps)
next
  case (SetDeadTime t)
  with twelve_bitD [OF assms] show ?thesis
    by (intro twelve_bitI) (simp_all add: ctrl_setDeadTime deadTimeCode_const bit_simps)
next
  case (SetTorque v)
  with assms show ?thesis
    by (simp add: setTorque_def Let_def)
next
  case (SetOffTime v)
  with assms show ?thesis
    by (simp add: setOffTime_def Let_def)
next
  case (SetPWMMode m)
  with assms show ?thesis
    by (simp add: setPWMMode_def Let_def)
qed

lemma perform_all_keeps_ctrl_12_bit:
  "ctrl d \<le> 0xFFF \<Longrightarrow> ctrl (fst (perform_all cs d b)) \<le> 0xFFF"
proof (induction cs arbitrary: d b)
  case Nil
  then show ?case by simp
next
  case (Cons c cs)
  from Cons.prems have "ctrl (fst (perform c d b)) \<le> 0xFFF"
    by (rule perform_keeps_ctrl_12_bit)
  then show ?case
    by (cases "perform c d b") (simp add: Cons.IH)
qed

text \<open>
  Whatever a client calls on a freshly constructed device, the shadow of CTRL never has
  a bit above bit 11, and so the word a flush of CTRL transfers has the address nibble 0.
\<close>

lemma ctrl_12_bit_from_construction:
  "ctrl (fst (perform_all cs (fst (DRV8711_new spi0 b0)) b)) \<le> 0xFFF"
  by (rule perform_all_keeps_ctrl_12_bit) (simp add: DRV8711_new_def)

text \<open>
  The scenario of the data sheet defaults: a fresh device, \<open>setStepMode(16)\<close>, then
  \<open>enableDriver()\<close> leave \<open>0xC21\<close> in the shadow and transfer \<open>0xC20\<close>, then \<open>0xC21\<close>.
\<close>

lemma fresh_stepmode_enable:
  "perform_all [SetStepMode 16, EnableDriver] (fst (DRV8711_new \<lparr>ssPin = 10\<rparr> [])) [] =
     (\<lparr>ctrl = 0xC21, torque = 0x1FF, off = 0x30, blank = 0x80, decay = 0x110,
       status = 0x0, driver = \<lparr>ssPin = 10\<rparr>\<rparr>,
      [DigitalWrite 10 HIGH, BeginTransaction settings, Transfer16 0xC20,
       EndTransaction, DigitalWrite 10 LOW,
       DigitalWrite 10 HIGH, BeginTransaction settings, Transfer16 0xC21,
       EndTransaction, DigitalWrite 10 LOW])"
  by (simp add: DRV8711_new_def setStepMode_def stepModeCode_def enableDriver_def
      Let_def enum_defs writeCTRL_def writeReg_trace)

section \<open>Properties\<close>

text \<open>
  C8.  A freshly constructed device has the power-on defaults in its shadow registers,
  CTRL = 0xC10, TORQUE = 0x1FF, OFF = 0x30, BLANK = 0x80, DECAY = 0x110, STATUS = 0x0,
  and the constructor performs no call on the pins or the bus: the trace is the one it
  started with.
\<close>

theorem fresh_device_defaults:
  "ctrl (fst (DRV8711_new spi0 b)) = 0xC10 \<and>
   torque (fst (DRV8711_new spi0 b)) = 0x1FF \<and>
   off (fst (DRV8711_new spi0 b)) = 0x30 \<and>
   blank (fst (DRV8711_new spi0 b)) = 0x80 \<and>
   decay (fst (DRV8711_new spi0 b)) = 0x110 \<and>
   status (fst (DRV8711_new spi0 b)) = 0x0 \<and>
   snd (DRV8711_new spi0 b) = b"
  by (simp add: DRV8711_new_def)

text \<open>
  C2, as amended.  \<open>writeReg\<close> raises the select pin, opens the transaction, transfers
  exactly one word, closes the transaction and lowers the pin.  The word is
  \<open>(address << 12) | value\<close> truncated to 16 bits, with \<open>value\<close> not masked.  For a
  value of at most 12 bits this is \<open>(address << 12) | (value & 0xFFF)\<close>, and
  \<open>writeReg(TORQUE, 0x0FF)\<close> puts \<open>0x10FF\<close> on the wire.
\<close>

theorem writeReg_wire_word:
  "writeReg spi a v b =
     b @ [DigitalWrite (ssPin spi) HIGH, BeginTransaction settings,
          Transfer16 (push_bit 12 (ucast a) OR v),
          EndTransaction, DigitalWrite (ssPin spi) LOW] \<and>
   (v \<le> 0xFFF \<longrightarrow>
      writeReg spi a v b =
        b @ [DigitalWrite (ssPin spi) HIGH, BeginTransaction settings,
             Transfer16 (push_bit 12 (ucast a) OR (v AND 0xFFF)),
             EndTransaction, DigitalWrite (ssPin spi) LOW]) \<and>
   writeReg spi TORQUE 0x0FF b =
     b @ [DigitalWrite (ssPin spi) HIGH, BeginTransaction settings,
          Transfer16 0x10FF,
          EndTransaction, DigitalWrite (ssPin spi) LOW]"
proof -
  have "v AND 0xFFF = v" if "v \<le> 0xFFF"
    using that unfolding twelve_bit_iff
    by (intro word16_eqI) (auto simp add: bit_simps)
  then show ?thesis
    by (simp add: writeReg_trace TORQUE_def)
qed

theorem writeReg_wire_word_witness:
  "(0x0FF :: uint16_t) \<le> 0xFFF \<and>
   writeReg \<lparr>ssPin = 10\<rparr> TORQUE 0x0FF [] =
     [DigitalWrite 10 HIGH, BeginTransaction settings,
      Transfer16 (push_bit 12 (ucast TORQUE) OR (0x0FF AND 0xFFF)),
      EndTransaction, DigitalWrite 10 LOW]"
  using writeReg_wire_word [of "\<lparr>ssPin = 10\<rparr>" TORQUE "0x0FF" "[]"]
  by simp

text \<open>
  C2 as stated fails: a value with a bit above bit 11 is transmitted unmasked.
  \<open>writeReg(CTRL, 0x1000)\<close> transfers \<open>0x1000\<close>, while
  \<open>(0 << 12) | (0x1000 & 0xFFF)\<close> is \<open>0\<close>.
\<close>

theorem writeReg_unmasked_counterexample:
  "writeReg \<lparr>ssPin = 10\<rparr> CTRL 0x1000 [] =
     [DigitalWrite 10 HIGH, BeginTransaction settings, Transfer16 0x1000,
      EndTransaction, DigitalWrite 10 LOW] \<and>
   (0x1000 :: uint16_t) \<noteq> push_bit 12 (ucast CTRL) OR (0x1000 AND 0xFFF)"
  by (simp add: writeReg_trace CTRL_def)

text \<open>
  C3.  From any CTRL shadow, \<open>enableDriver\<close> sets bit 0 and leaves every other bit
  (bits 1 to 11 among them) as it was, so \<open>0xC20\<close> becomes \<open>0xC21\<close>;
  \<open>disableDriver\<close> makes the whole CTRL shadow zero.  Each of them then performs one
  write transaction that transfers the new shadow with the address CTRL: the word on
  the wire is the new shadow itself, \<open>CTRL\<close> being address 0, and for a 12-bit shadow
  its address nibble is 0 and its payload the shadow.
\<close>

theorem enableDriver_disableDriver:
  "bit (ctrl (fst (enableDriver d b))) 0 \<and>
   (\<forall>n. 1 \<le> n \<longrightarrow> bit (ctrl (fst (enableDriver d b))) n = bit (ctrl d) n) \<and>
   (ctrl d = 0xC20 \<longrightarrow> ctrl (fst (enableDriver d b)) = 0xC21) \<and>
   ctrl (fst (disableDriver d b)) = 0 \<and>
   snd (enableDriver d b) =
     b @ [DigitalWrite (ssPin (driver d)) HIGH, BeginTransaction settings,
          Transfer16 (ctrl (fst (enableDriver d b))),
          EndTransaction, DigitalWrite (ssPin (driver d)) LOW] \<and>
   snd (disableDriver d b) =
     b @ [DigitalWrite (ssPin (driver d)) HIGH, BeginTransaction settings,
          Transfer16 (ctrl (fst (disableDriver d b))),
          EndTransaction, DigitalWrite (ssPin (driver d)) LOW] \<and>
   (ctrl d \<le> 0xFFF \<longrightarrow>
      drop_bit 12 (ctrl (fst (enableDriver d b))) = ucast CTRL \<and>
      take_bit 12 (ctrl (fst (enableDriver d b))) = ctrl (fst (enableDriver d b)))"
proof (intro conjI allI impI)
  show "bit (ctrl (fst (enableDriver d b))) 0"
    by (simp add: ctrl_enableDriver bit_simps)
  show "bit (ctrl (fst (enableDriver d b))) n = bit (ctrl d) n" if "1 \<le> n" for n
    using that by (simp add: ctrl_enableDriver bit_simps)
  show "ctrl (fst (enableDriver d b)) = 0xC21" if "ctrl d = 0xC20"
    using that by (simp add: ctrl_enableDriver)
  show "ctrl (fst (disableDriver d b)) = 0"
    by (rule ctrl_disableDriver)
  show "snd (enableDriver d b) =
     b @ [DigitalWrite (ssPin (driver d)) HIGH, BeginTransaction settings,
          Transfer16 (ctrl (fst (enableDriver d b))),
          EndTransaction, DigitalWrite (ssPin (driver d)) LOW]"
    by (simp add: enableDriver_def Let_def writeCTRL_def writeReg_trace CTRL_def)
  show "snd (disableDriver d b) =
     b @ [DigitalWrite (ssPin (driver d)) HIGH, BeginTransaction settings,
          Transfer16 (ctrl (fst (disableDriver d b))),
          EndTransaction, DigitalWrite (ssPin (driver d)) LOW]"
    by (simp add: disableDriver_def Let_def writeCTRL_def writeReg_trace CTRL_def)
  assume small: "ctrl d \<le> 0xFFF"
  show "drop_bit 12 (ctrl (fst (enableDriver d b))) = ucast CTRL"
    using small unfolding twelve_bit_iff ctrl_enableDriver CTRL_def
    by (intro word16_eqI) (auto simp add: bit_simps)
  show "take_bit 12 (ctrl (fst (enableDriver d b))) = ctrl (fst (enableDriver d b))"
    using small unfolding twelve_bit_iff ctrl_enableDriver
    by (intro word16_eqI) (auto simp add: bit_simps)
qed

theorem enableDriver_disableDriver_witness:
  "(1 :: nat) \<le> 5 \<and>
   bit (ctrl (fst (enableDriver (fst (DRV8711_new \<lparr>ssPin = 10\<rparr> [])\<lparr>ctrl := 0xC20\<rparr>) []))) 5
     = bit (0xC20 :: uint16_t) 5 \<and>
   (0xC20 :: uint16_t) \<le> 0xFFF \<and>
   ctrl (fst (enableDriver (fst (DRV8711_new \<lparr>ssPin = 10\<rparr> [])\<lparr>ctrl := 0xC20\<rparr>) [])) = 0xC21 \<and>
   snd (enableDriver (fst (DRV8711_new \<lparr>ssPin = 10\<rparr> [])\<lparr>ctrl := 0xC20\<rparr>) []) =
     [DigitalWrite 10 HIGH, BeginTransaction settings, Transfer16 0xC21,
      EndTransaction, DigitalWrite 10 LOW]"
  using enableDriver_disableDriver
    [of "fst (DRV8711_new \<lparr>ssPin = 10\<rparr> [])\<lparr>ctrl := 0xC20\<rparr>" "[]"]
  by (simp add: DRV8711_new_def)

text \<open>
  C4.  For a legal step mode \<open>m\<close> (1, 2, 4, ..., 256) and any CTRL shadow,
  \<open>setStepMode m\<close> leaves in CTRL bits [6:3] the code of the datasheet's table
  (1 -> 0, 2 -> 1, 4 -> 2, 8 -> 3, 16 -> 4, 32 -> 5, 64 -> 6, 128 -> 7, 256 -> 8), every
  other bit of the 12-bit register CTRL (bits 0 to 2 and 7 to 11) is as before, and no
  other shadow register changes.  The mask of the assignment is 12 bits wide, so the
  four bits of the \<open>uint16_t\<close> above the register come out zero: for a shadow that is a
  12-bit value, as the constructor and every setter leave it, no bit at all changes
  outside [6:3].  For any other \<open>m\<close> the call does exactly what \<open>setStepMode 4\<close> does.
\<close>

theorem setStepMode_table_and_frame:
  "(m \<in> {1, 2, 4, 8, 16, 32, 64, 128, 256} \<longrightarrow>
      take_bit 4 (drop_bit 3 (ctrl (fst (setStepMode m d b)))) =
        (if m = 1 then 0 else if m = 2 then 1 else if m = 4 then 2 else if m = 8 then 3
         else if m = 16 then 4 else if m = 32 then 5 else if m = 64 then 6
         else if m = 128 then 7 else 8) \<and>
      (\<forall>n<12. n \<notin> {3, 4, 5, 6} \<longrightarrow>
         bit (ctrl (fst (setStepMode m d b))) n = bit (ctrl d) n) \<and>
      (ctrl d \<le> 0xFFF \<longrightarrow>
         (\<forall>n. n \<notin> {3, 4, 5, 6} \<longrightarrow>
            bit (ctrl (fst (setStepMode m d b))) n = bit (ctrl d) n)) \<and>
      fst (setStepMode m d b) = d\<lparr>ctrl := ctrl (fst (setStepMode m d b))\<rparr>) \<and>
   (m \<notin> {1, 2, 4, 8, 16, 32, 64, 128, 256} \<longrightarrow>
      setStepMode m d b = setStepMode 4 d b)"
proof (intro conjI allI impI)
  assume legal: "m \<in> {1, 2, 4, 8, 16, 32, 64, 128, 256}"
  have "take_bit 4 (drop_bit 3 (ctrl (fst (setStepMode m d b)))) = stepModeCode m"
    using stepModeCode_range [of m] unfolding ctrl_setStepMode
    by (intro word16_eqI) (auto simp add: bit_simps)
  also from legal have "stepModeCode m =
        (if m = 1 then 0 else if m = 2 then 1 else if m = 4 then 2 else if m = 8 then 3
         else if m = 16 then 4 else if m = 32 then 5 else if m = 64 then 6
         else if m = 128 then 7 else 8)"
    by (auto simp add: stepModeCode_def enum_defs)
  finally show "take_bit 4 (drop_bit 3 (ctrl (fst (setStepMode m d b)))) =
        (if m = 1 then 0 else if m = 2 then 1 else if m = 4 then 2 else if m = 8 then 3
         else if m = 16 then 4 else if m = 32 then 5 else if m = 64 then 6
         else if m = 128 then 7 else 8)" .
  show "bit (ctrl (fst (setStepMode m d b))) n = bit (ctrl d) n"
    if "n < 12" and "n \<notin> {3, 4, 5, 6}" for n
    using that stepModeCode_range [of m] unfolding ctrl_setStepMode
    by (auto simp add: bit_simps dest!: below_12)
  show "bit (ctrl (fst (setStepMode m d b))) n = bit (ctrl d) n"
    if small: "ctrl d \<le> 0xFFF" and out: "n \<notin> {3, 4, 5, 6}" for n
  proof (cases "n < 12")
    case True
    with out stepModeCode_range [of m] show ?thesis
      unfolding ctrl_setStepMode by (auto simp add: bit_simps dest!: below_12)
  next
    case False
    with small have "\<not> bit (ctrl d) n"
      by (simp add: twelve_bit_iff)
    moreover from False stepModeCode_range [of m]
    have "\<not> bit (push_bit 3 (stepModeCode m)) n"
      by (cases "n < 16") (auto simp add: bit_simps high_bits_u16 dest!: below_16)
    ultimately show ?thesis
      by (simp add: ctrl_setStepMode bit_simps)
  qed
  show "fst (setStepMode m d b) = d\<lparr>ctrl := ctrl (fst (setStepMode m d b))\<rparr>"
    by (simp add: setStepMode_def Let_def)
next
  assume "m \<notin> {1, 2, 4, 8, 16, 32, 64, 128, 256}"
  then have "stepModeCode m = stepModeCode 4"
    by (simp add: stepModeCode_def enum_defs Let_def word_uint_eq_iff)
  then show "setStepMode m d b = setStepMode 4 d b"
    by (simp add: setStepMode_def)
qed

theorem setStepMode_table_and_frame_witness:
  "(16 :: uint16_t) \<in> {1, 2, 4, 8, 16, 32, 64, 128, 256} \<and>
   take_bit 4 (drop_bit 3 (ctrl (fst (setStepMode 16 (fst (DRV8711_new \<lparr>ssPin = 10\<rparr> [])) [])))) = 4 \<and>
   (10 :: nat) < 12 \<and> (10 :: nat) \<notin> {3, 4, 5, 6} \<and>
   bit (ctrl (fst (setStepMode 16 (fst (DRV8711_new \<lparr>ssPin = 10\<rparr> [])) []))) 10
     = bit (0xC10 :: uint16_t) 10 \<and>
   (0xC10 :: uint16_t) \<le> 0xFFF \<and>
   (3 :: uint16_t) \<notin> {1, 2, 4, 8, 16, 32, 64, 128, 256} \<and>
   setStepMode 3 (fst (DRV8711_new \<lparr>ssPin = 10\<rparr> [])) []
     = setStepMode 4 (fst (DRV8711_new \<lparr>ssPin = 10\<rparr> [])) []"
  using setStepMode_table_and_frame [of 16 "fst (DRV8711_new \<lparr>ssPin = 10\<rparr> [])" "[]"]
    setStepMode_table_and_frame [of 3 "fst (DRV8711_new \<lparr>ssPin = 10\<rparr> [])" "[]"]
  by (simp add: DRV8711_new_def)

text \<open>
  C5.  For a gain \<open>g\<close> of 5, 10, 20 or 40 and any CTRL shadow, \<open>setGain g\<close> leaves in
  CTRL bits [9:8] the code of \<open>g\<close> (5 -> 0, 10 -> 1, 20 -> 2, 40 -> 3) and changes nothing
  else: every other bit of the 12-bit register CTRL is as before and no other shadow
  register changes.  As for the step mode, the 12-bit mask zeroes the four bits of the
  \<open>uint16_t\<close> above the register, so on a 12-bit shadow no bit at all changes outside
  [9:8].  For any other \<open>g\<close> the call does exactly what \<open>setGain 20\<close> does.
\<close>

theorem setGain_table_and_frame:
  "(g \<in> {5, 10, 20, 40} \<longrightarrow>
      take_bit 2 (drop_bit 8 (ctrl (fst (setGain g d b)))) =
        (if g = 5 then 0 else if g = 10 then 1 else if g = 20 then 2 else 3) \<and>
      (\<forall>n<12. n \<notin> {8, 9} \<longrightarrow> bit (ctrl (fst (setGain g d b))) n = bit (ctrl d) n) \<and>
      (ctrl d \<le> 0xFFF \<longrightarrow>
         (\<forall>n. n \<notin> {8, 9} \<longrightarrow> bit (ctrl (fst (setGain g d b))) n = bit (ctrl d) n)) \<and>
      fst (setGain g d b) = d\<lparr>ctrl := ctrl (fst (setGain g d b))\<rparr>) \<and>
   (g \<notin> {5, 10, 20, 40} \<longrightarrow> setGain g d b = setGain 20 d b)"
proof (intro conjI allI impI)
  assume legal: "g \<in> {5, 10, 20, 40}"
  have "take_bit 2 (drop_bit 8 (ctrl (fst (setGain g d b)))) = gainCode g"
    using gainCode_range [of g] unfolding ctrl_setGain
    by (intro word16_eqI) (auto simp add: bit_simps)
  also from legal have "gainCode g =
        (if g = 5 then 0 else if g = 10 then 1 else if g = 20 then 2 else 3)"
    by (auto simp add: gainCode_def enum_defs)
  finally show "take_bit 2 (drop_bit 8 (ctrl (fst (setGain g d b)))) =
        (if g = 5 then 0 else if g = 10 then 1 else if g = 20 then 2 else 3)" .
  show "bit (ctrl (fst (setGain g d b))) n = bit (ctrl d) n"
    if "n < 12" and "n \<notin> {8, 9}" for n
    using that gainCode_range [of g] unfolding ctrl_setGain
    by (auto simp add: bit_simps dest!: below_12)
  show "bit (ctrl (fst (setGain g d b))) n = bit (ctrl d) n"
    if small: "ctrl d \<le> 0xFFF" and out: "n \<notin> {8, 9}" for n
  proof (cases "n < 12")
    case True
    with out gainCode_range [of g] show ?thesis
      unfolding ctrl_setGain by (auto simp add: bit_simps dest!: below_12)
  next
    case False
    with small have "\<not> bit (ctrl d) n"
      by (simp add: twelve_bit_iff)
    moreover from False gainCode_range [of g]
    have "\<not> bit (push_bit 8 (gainCode g)) n"
      by (cases "n < 16") (auto simp add: bit_simps high_bits_u16 dest!: below_16)
    ultimately show ?thesis
      by (simp add: ctrl_setGain bit_simps)
  qed
  show "fst (setGain g d b) = d\<lparr>ctrl := ctrl (fst (setGain g d b))\<rparr>"
    by (simp add: setGain_def Let_def)
next
  assume "g \<notin> {5, 10, 20, 40}"
  then have "gainCode g = gainCode 20"
    by (simp add: gainCode_def enum_defs Let_def word_uint_eq_iff)
  then show "setGain g d b = setGain 20 d b"
    by (simp add: setGain_def)
qed

theorem setGain_table_and_frame_witness:
  "(40 :: uint8_t) \<in> {5, 10, 20, 40} \<and>
   take_bit 2 (drop_bit 8 (ctrl (fst (setGain 40 (fst (DRV8711_new \<lparr>ssPin = 10\<rparr> [])) [])))) = 3 \<and>
   (4 :: nat) < 12 \<and> (4 :: nat) \<notin> {8, 9} \<and>
   bit (ctrl (fst (setGain 40 (fst (DRV8711_new \<lparr>ssPin = 10\<rparr> [])) []))) 4
     = bit (0xC10 :: uint16_t) 4 \<and>
   (0xC10 :: uint16_t) \<le> 0xFFF \<and>
   (7 :: uint8_t) \<notin> {5, 10, 20, 40} \<and>
   setGain 7 (fst (DRV8711_new \<lparr>ssPin = 10\<rparr> [])) []
     = setGain 20 (fst (DRV8711_new \<lparr>ssPin = 10\<rparr> [])) []"
  using setGain_table_and_frame [of 40 "fst (DRV8711_new \<lparr>ssPin = 10\<rparr> [])" "[]"]
    setGain_table_and_frame [of 7 "fst (DRV8711_new \<lparr>ssPin = 10\<rparr> [])" "[]"]
  by (simp add: DRV8711_new_def)

text \<open>
  C6.  \<open>setPWMMode\<close> does not look at its argument: from a common state, two calls with
  any two arguments give the same device state and the same trace, hence the same OFF
  shadow and the same word on the wire.  Each call inverts OFF bit 8, the new shadow
  being the old one XOR \<open>0x100\<close>, changes no other bit of OFF, and transfers
  \<open>(OFF << 12) | off\<close> for the new shadow.
\<close>

theorem setPWMMode_ignores_argument:
  "setPWMMode m1 d b = setPWMMode m2 d b \<and>
   off (fst (setPWMMode m1 d b)) = off d XOR 0x100 \<and>
   bit (off (fst (setPWMMode m1 d b))) 8 = (\<not> bit (off d) 8) \<and>
   (\<forall>n. n \<noteq> 8 \<longrightarrow> bit (off (fst (setPWMMode m1 d b))) n = bit (off d) n) \<and>
   snd (setPWMMode m1 d b) =
     b @ [DigitalWrite (ssPin (driver d)) HIGH, BeginTransaction settings,
          Transfer16 (push_bit 12 (ucast OFF) OR (off d XOR 0x100)),
          EndTransaction, DigitalWrite (ssPin (driver d)) LOW]"
proof (intro conjI allI impI)
  show "setPWMMode m1 d b = setPWMMode m2 d b"
    by (simp add: setPWMMode_def)
  show "off (fst (setPWMMode m1 d b)) = off d XOR 0x100"
    by (rule off_setPWMMode)
  show "bit (off (fst (setPWMMode m1 d b))) 8 = (\<not> bit (off d) 8)"
    by (simp add: off_setPWMMode bit_simps)
  show "bit (off (fst (setPWMMode m1 d b))) n = bit (off d) n" if "n \<noteq> 8" for n
  proof (cases "n < 16")
    case True
    with that show ?thesis
      by (auto simp add: off_setPWMMode bit_simps dest!: below_16)
  next
    case False
    then show ?thesis
      by (simp add: high_bits_u16)
  qed
  have "snd (setPWMMode m1 d b) = writeReg (driver d) OFF (off (fst (setPWMMode m1 d b))) b"
    by (simp add: setPWMMode_def Let_def writeOFF_def)
  then show "snd (setPWMMode m1 d b) =
     b @ [DigitalWrite (ssPin (driver d)) HIGH, BeginTransaction settings,
          Transfer16 (push_bit 12 (ucast OFF) OR (off d XOR 0x100)),
          EndTransaction, DigitalWrite (ssPin (driver d)) LOW]"
    by (simp only: off_setPWMMode writeReg_trace)
qed

theorem setPWMMode_ignores_argument_witness:
  "setPWMMode 0 (fst (DRV8711_new \<lparr>ssPin = 10\<rparr> [])) []
     = setPWMMode 1 (fst (DRV8711_new \<lparr>ssPin = 10\<rparr> [])) [] \<and>
   off (fst (setPWMMode 0 (fst (DRV8711_new \<lparr>ssPin = 10\<rparr> [])) [])) = 0x130 \<and>
   (4 :: nat) \<noteq> 8 \<and>
   bit (off (fst (setPWMMode 0 (fst (DRV8711_new \<lparr>ssPin = 10\<rparr> [])) []))) 4
     = bit (0x30 :: uint16_t) 4 \<and>
   snd (setPWMMode 0 (fst (DRV8711_new \<lparr>ssPin = 10\<rparr> [])) []) =
     [DigitalWrite 10 HIGH, BeginTransaction settings, Transfer16 0x2130,
      EndTransaction, DigitalWrite 10 LOW]"
  using setPWMMode_ignores_argument [of 0 "fst (DRV8711_new \<lparr>ssPin = 10\<rparr> [])" "[]" 1]
  by (simp add: DRV8711_new_def OFF_def setPWMMode_def Let_def writeOFF_def writeReg_trace)

text \<open>
  C7.  For every \<open>uint8_t\<close> value \<open>v\<close> (0 to 255) and any TORQUE shadow,
  \<open>setTorque v\<close> leaves \<open>v\<close> in TORQUE bits [7:0] and bits 8, 9 and 10 as they were, and
  then performs one write transaction of the new shadow to the register TORQUE: the
  word on the wire has the address nibble 1 and the new shadow as its 12-bit payload.
\<close>

theorem setTorque_field_and_write:
  "take_bit 8 (torque (fst (setTorque v d b))) = ucast v \<and>
   bit (torque (fst (setTorque v d b))) 8 = bit (torque d) 8 \<and>
   bit (torque (fst (setTorque v d b))) 9 = bit (torque d) 9 \<and>
   bit (torque (fst (setTorque v d b))) 10 = bit (torque d) 10 \<and>
   take_bit 3 (drop_bit 8 (torque (fst (setTorque v d b)))) = take_bit 3 (drop_bit 8 (torque d)) \<and>
   snd (setTorque v d b) =
     b @ [DigitalWrite (ssPin (driver d)) HIGH, BeginTransaction settings,
          Transfer16 (push_bit 12 (ucast TORQUE) OR torque (fst (setTorque v d b))),
          EndTransaction, DigitalWrite (ssPin (driver d)) LOW] \<and>
   drop_bit 12 (push_bit 12 (ucast TORQUE) OR torque (fst (setTorque v d b))) = ucast TORQUE \<and>
   take_bit 12 (push_bit 12 (ucast TORQUE) OR torque (fst (setTorque v d b)))
     = torque (fst (setTorque v d b))"
proof (intro conjI)
  show "take_bit 8 (torque (fst (setTorque v d b))) = ucast v"
    unfolding torque_setTorque
    by (intro word16_eqI) (auto simp add: bit_simps high_bits_u8)
  show "bit (torque (fst (setTorque v d b))) 8 = bit (torque d) 8"
    by (simp add: torque_setTorque bit_simps high_bits_u8)
  show "bit (torque (fst (setTorque v d b))) 9 = bit (torque d) 9"
    by (simp add: torque_setTorque bit_simps high_bits_u8)
  show "bit (torque (fst (setTorque v d b))) 10 = bit (torque d) 10"
    by (simp add: torque_setTorque bit_simps high_bits_u8)
  show "take_bit 3 (drop_bit 8 (torque (fst (setTorque v d b))))
      = take_bit 3 (drop_bit 8 (torque d))"
    unfolding torque_setTorque
    by (intro word16_eqI) (auto simp add: bit_simps high_bits_u8)
  have "snd (setTorque v d b) = writeReg (driver d) TORQUE (torque (fst (setTorque v d b))) b"
    by (simp add: setTorque_def Let_def writeTORQUE_def)
  then show "snd (setTorque v d b) =
     b @ [DigitalWrite (ssPin (driver d)) HIGH, BeginTransaction settings,
          Transfer16 (push_bit 12 (ucast TORQUE) OR torque (fst (setTorque v d b))),
          EndTransaction, DigitalWrite (ssPin (driver d)) LOW]"
    by (simp only: writeReg_trace)
  show "drop_bit 12 (push_bit 12 (ucast TORQUE) OR torque (fst (setTorque v d b))) = ucast TORQUE"
    unfolding torque_setTorque TORQUE_def
    by (intro word16_eqI) (auto simp add: bit_simps high_bits_u8)
  show "take_bit 12 (push_bit 12 (ucast TORQUE) OR torque (fst (setTorque v d b)))
     = torque (fst (setTorque v d b))"
    unfolding torque_setTorque TORQUE_def
    by (intro word16_eqI) (auto simp add: bit_simps high_bits_u8)
qed

text \<open>
  C9.  From any state, one \<open>flipDirection\<close> inverts CTRL bit 1 and a second one, run on
  the state and bus the first left, restores it (and with it the whole CTRL shadow);
  one \<open>setPWMMode\<close> inverts OFF bit 8 and a second one, whatever the two arguments,
  restores it (and the whole OFF shadow).
\<close>

theorem toggles_twice_restore:
  "(case flipDirection d b of (d1, b1) \<Rightarrow>
      case flipDirection d1 b1 of (d2, b2) \<Rightarrow>
        bit (ctrl d1) 1 = (\<not> bit (ctrl d) 1) \<and>
        bit (ctrl d2) 1 = bit (ctrl d) 1 \<and>
        ctrl d2 = ctrl d) \<and>
   (case setPWMMode m1 d b of (d1, b1) \<Rightarrow>
      case setPWMMode m2 d1 b1 of (d2, b2) \<Rightarrow>
        bit (off d1) 8 = (\<not> bit (off d) 8) \<and>
        bit (off d2) 8 = bit (off d) 8 \<and>
        off d2 = off d)"
proof -
  have flip: "ctrl (fst (flipDirection d' b')) = ctrl d' XOR 2" for d' b'
    by (rule ctrl_flipDirection)
  have pwm: "off (fst (setPWMMode m d' b')) = off d' XOR 0x100" for m d' b'
    by (rule off_setPWMMode)
  have twice_flip: "(x XOR 2) XOR 2 = x" for x :: uint16_t
    by (simp add: xor.assoc)
  have twice_pwm: "(x XOR 0x100) XOR 0x100 = x" for x :: uint16_t
    by (simp add: xor.assoc)
  have "bit (ctrl (fst (flipDirection d b))) 1 = (\<not> bit (ctrl d) 1)"
    by (simp add: flip bit_simps)
  moreover have "ctrl (fst (flipDirection (fst (flipDirection d b)) (snd (flipDirection d b))))
      = ctrl d"
    by (simp only: flip twice_flip)
  moreover have "bit (off (fst (setPWMMode m1 d b))) 8 = (\<not> bit (off d) 8)"
    by (simp add: pwm bit_simps)
  moreover have "off (fst (setPWMMode m2 (fst (setPWMMode m1 d b)) (snd (setPWMMode m1 d b))))
      = off d"
    by (simp only: pwm twice_pwm)
  ultimately show ?thesis
    by (simp add: case_prod_unfold)
qed

text \<open>
  C10.  For every \<open>uint8_t\<close> argument and any CTRL shadow, after \<open>setDeadTime\<close> the CTRL
  bits [9:8] are zero, bits [11:10] are their previous value ORed with the dead-time
  code the \<open>switch\<close> produced, and bits [7:0] are unchanged.  No label of the \<open>switch\<close>
  is a \<open>uint8_t\<close> value, so that code is \<open>0b11\<close> each time.
\<close>

theorem setDeadTime_effect:
  "take_bit 2 (drop_bit 8 (ctrl (fst (setDeadTime t d b)))) = 0 \<and>
   take_bit 2 (drop_bit 10 (ctrl (fst (setDeadTime t d b))))
     = take_bit 2 (drop_bit 10 (ctrl d)) OR deadTimeCode t \<and>
   take_bit 8 (ctrl (fst (setDeadTime t d b))) = take_bit 8 (ctrl d) \<and>
   deadTimeCode t = 3"
proof (intro conjI)
  show "deadTimeCode t = 3"
    by (rule deadTimeCode_const)
  show "take_bit 2 (drop_bit 8 (ctrl (fst (setDeadTime t d b)))) = 0"
    unfolding ctrl_setDeadTime deadTimeCode_const
    by (intro word16_eqI) (auto simp add: bit_simps)
  show "take_bit 2 (drop_bit 10 (ctrl (fst (setDeadTime t d b))))
     = take_bit 2 (drop_bit 10 (ctrl d)) OR deadTimeCode t"
    unfolding ctrl_setDeadTime deadTimeCode_const
    by (intro word16_eqI) (auto simp add: bit_simps)
  show "take_bit 8 (ctrl (fst (setDeadTime t d b))) = take_bit 8 (ctrl d)"
    unfolding ctrl_setDeadTime deadTimeCode_const
    by (intro word16_eqI) (auto simp add: bit_simps)
qed

text \<open>
  C1 does not hold of the code.  The parameter of \<open>setDeadTime\<close> is a \<open>uint8_t\<close>, so
  none of the labels 400, 450, 650 and 850 can match and the code is \<open>0b11\<close> for every
  argument; and the mask \<open>0b110011111111\<close> is the one of \<open>setGain\<close>: it clears
  bits [9:8] and keeps bits [11:10].  On a fresh device \<open>setDeadTime(DeadTime400ns)\<close>
  (the argument arrives as 144) leaves CTRL at \<open>0xC10\<close>, bits [11:10] still \<open>0b11\<close>;
  and from CTRL = \<open>0xD10\<close> (gain 10) \<open>setDeadTime(DeadTime850ns)\<close> gives \<open>0xC10\<close>:
  the gain field is reset.
\<close>

theorem setDeadTime_code_and_mask:
  "ctrl (fst (setDeadTime t d b)) = (ctrl d AND 0xCFF) OR 0xC00 \<and>
   arg_u8 DeadTime400ns = 144 \<and>
   ctrl (fst (setDeadTime (arg_u8 DeadTime400ns) (fst (DRV8711_new \<lparr>ssPin = 10\<rparr> [])) []))
     = 0xC10 \<and>
   take_bit 2 (drop_bit 10
     (ctrl (fst (setDeadTime (arg_u8 DeadTime400ns) (fst (DRV8711_new \<lparr>ssPin = 10\<rparr> [])) []))))
     = 3 \<and>
   ctrl (fst (setDeadTime (arg_u8 DeadTime850ns)
     (fst (DRV8711_new \<lparr>ssPin = 10\<rparr> [])\<lparr>ctrl := 0xD10\<rparr>) [])) = 0xC10"
  by (simp add: ctrl_setDeadTime deadTimeCode_const DRV8711_new_def arg_u8_def enum_defs)

end
